theory Spec2Isabelle
  imports Complex_Main "HOL-Library.Word"
begin

unbundle bit_operations_syntax

section \<open>Values, exceptions and HTTP results\<close>

text \<open>
  The service is two Python modules: the provider adapter (class ElevenLabsClient in
  elevenlabs_client.py) and the HTTP facade (the FastAPI handlers of main.py). Every
  exception derived from Python's Exception is a value of \<open>exn\<close>: its class name and the
  text that \<open>str(e)\<close> gives. A function that can raise returns \<open>exn + 'a\<close>, with
  \<open>Inl\<close> for the raise.
\<close>

type_synonym byte = "8 word"
type_synonym bytes = "byte list"

datatype exn = Exn (exn_class: string) (exn_str: string)

text \<open>
  Values whose Python type is only known at run time: JSON documents of the provider,
  attributes of SDK objects and the entries of the voice-settings dictionary. A float is
  a rational number here; the service never computes with these values, it stores,
  compares and forwards them.
\<close>

datatype pyval =
    PyNone
  | PyBool bool
  | PyNum rat
  | PyStr string
  | PyList "pyval list"
  | PyDict "(string \<times> pyval) list"

text \<open>\<open>d.get(k, default)\<close> on a dictionary kept as an association list.\<close>

definition dict_get :: "(string \<times> pyval) list \<Rightarrow> string \<Rightarrow> pyval \<Rightarrow> pyval" where
  "dict_get d k dflt = (case map_of d k of Some v \<Rightarrow> v | None \<Rightarrow> dflt)"

text \<open>
  \<open>x or d\<close> for an optional string \<open>x\<close>: Python takes \<open>d\<close> when \<open>x\<close> is None
  and also when \<open>x\<close> is the empty string, both being falsy.
\<close>

definition py_or :: "string option \<Rightarrow> string \<Rightarrow> string" where
  "py_or x d = (case x of None \<Rightarrow> d | Some s \<Rightarrow> if s = [] then d else s)"

text \<open>
  FastAPI turns a raised HTTPException into a response with that status code and detail;
  a handler that returns normally answers 200.
\<close>

datatype http_exception = HTTPException (status_code: nat) (detail: string)

definition response_status :: "http_exception + 'a \<Rightarrow> nat" where
  "response_status r = (case r of Inl h \<Rightarrow> status_code h | Inr _ \<Rightarrow> 200)"

section \<open>Base64 of the standard library\<close>

text \<open>
  main.py calls \<open>base64.b64encode(audio_data).decode()\<close> and
  \<open>base64.b64decode(request.audio_data)\<close>. The encoder is RFC 4648 section 4 with
  padding, three bytes to four characters. The decoder is CPython's
  \<open>binascii.a2b_base64\<close> (as of CPython 3.11) in its default, non-strict mode:
  characters outside the alphabet are skipped, a completed pad sequence ends the input, and
  a quantum left open at the end of the input raises \<open>binascii.Error\<close>. Neither is
  code of the repository; both are written out so that the facade's use of them can be
  evaluated and the round trip proved rather than assumed.
\<close>

definition b64_alphabet :: string where
  "b64_alphabet = ''ABCDEFGHIJKLMNOPQRSTUVWXYZabcdefghijklmnopqrstuvwxyz0123456789+/''"

definition table_b2a_base64 :: "byte \<Rightarrow> char" where
  "table_b2a_base64 w = b64_alphabet ! unat (w AND 63)"

fun index_of :: "char \<Rightarrow> string \<Rightarrow> nat \<Rightarrow> nat option" where
  "index_of c [] i = None"
| "index_of c (x # xs) i = (if c = x then Some i else index_of c xs (Suc i))"

definition table_a2b_base64 :: "char \<Rightarrow> byte option" where
  "table_a2b_base64 c = map_option of_nat (index_of c b64_alphabet 0)"

fun b64encode :: "bytes \<Rightarrow> string" where
  "b64encode [] = []"
| "b64encode [a] =
     [table_b2a_base64 (drop_bit 2 a),
      table_b2a_base64 (push_bit 4 (a AND 3)),
      CHR ''='', CHR ''='']"
| "b64encode [a, b] =
     [table_b2a_base64 (drop_bit 2 a),
      table_b2a_base64 (push_bit 4 (a AND 3) OR drop_bit 4 b),
      table_b2a_base64 (push_bit 2 (b AND 15)),
      CHR ''='']"
| "b64encode (a # b # c # rest) =
     [table_b2a_base64 (drop_bit 2 a),
      table_b2a_base64 (push_bit 4 (a AND 3) OR drop_bit 4 b),
      table_b2a_base64 (push_bit 2 (b AND 15) OR drop_bit 6 c),
      table_b2a_base64 (c AND 63)] @ b64encode rest"

definition digit10 :: "nat \<Rightarrow> char" where
  "digit10 n = ''0123456789'' ! (n mod 10)"

function str_nat :: "nat \<Rightarrow> string" where
  "str_nat n = (if n < 10 then [digit10 n] else str_nat (n div 10) @ [digit10 n])"
  by pat_completeness auto
termination
  by (relation "measure (\<lambda>n. n)") auto

declare str_nat.simps [simp del]

definition incorrect_padding :: exn where
  "incorrect_padding = Exn ''binascii.Error'' ''Incorrect padding''"

definition invalid_length :: "nat \<Rightarrow> exn" where
  "invalid_length produced =
     Exn ''binascii.Error''
       (''Invalid base64-encoded string: number of data characters ('' @
        str_nat (produced div 3 * 4 + 1) @
        '') cannot be 1 more than a multiple of 4'')"

text \<open>
  The decoder's loop, with its state as arguments: the position in the current quantum
  \<open>quad_pos\<close>, the bits left over \<open>leftchar\<close>, the count of pad characters \<open>pads\<close>
  and the bytes written so far.
\<close>

fun a2b_base64 :: "string \<Rightarrow> nat \<Rightarrow> byte \<Rightarrow> nat \<Rightarrow> bytes \<Rightarrow> exn + bytes" where
  "a2b_base64 [] quad_pos leftchar pads out =
     (if quad_pos = 0 then Inr out
      else if quad_pos = 1 then Inl (invalid_length (length out))
      else Inl incorrect_padding)"
| "a2b_base64 (ch # rest) quad_pos leftchar pads out =
     (if ch = CHR ''='' then
        (if quad_pos \<ge> 2 then
           (if quad_pos + (pads + 1) \<ge> 4 then Inr out
            else a2b_base64 rest quad_pos leftchar (pads + 1) out)
         else a2b_base64 rest quad_pos leftchar pads out)
      else
        (case table_a2b_base64 ch of
           None \<Rightarrow> a2b_base64 rest quad_pos leftchar pads out
         | Some this_ch \<Rightarrow>
             (if quad_pos = 0 then a2b_base64 rest 1 this_ch 0 out
              else if quad_pos = 1 then
                a2b_base64 rest 2 (this_ch AND 15) 0
                  (out @ [push_bit 2 leftchar OR drop_bit 4 this_ch])
              else if quad_pos = 2 then
                a2b_base64 rest 3 (this_ch AND 3) 0
                  (out @ [push_bit 4 leftchar OR drop_bit 2 this_ch])
              else
                a2b_base64 rest 0 0 0
                  (out @ [push_bit 6 leftchar OR this_ch]))))"

text \<open>
  \<open>base64.b64decode(s)\<close> on a str first encodes it as ASCII and raises ValueError when
  it cannot; a character is ASCII when its code is below 128.
\<close>

definition b64decode :: "string \<Rightarrow> exn + bytes" where
  "b64decode s =
     (if \<exists>ch \<in> set s. of_char ch \<ge> (128 :: nat)
      then Inl (Exn ''ValueError'' ''string argument should contain only ASCII characters'')
      else a2b_base64 s 0 0 0 [])"

section \<open>The provider SDK and the environment\<close>

text \<open>
  The third-party SDK, the file system, the HTTP client and pydantic are outside the
  repository. Each call the service makes into them is a field of a record, returning
  what the call returns or the exception it raises; the theorems hold for every such
  record.
\<close>

record voice_settings =
  stability :: pyval
  similarity_boost :: pyval
  style :: pyval
  use_speaker_boost :: pyval

record voice =
  voice_voice_id :: string
  voice_settings :: voice_settings

text \<open>
  What \<open>client.speech_to_text.convert\<close> returns: the attributes \<open>text\<close> and
  \<open>confidence\<close> when the object has them, and its \<open>str()\<close>.
\<close>

record sdk_transcript =
  attr_text :: "pyval option"
  attr_confidence :: "pyval option"
  as_str :: string

record sdk_voice =
  sv_voice_id :: pyval
  sv_name :: pyval
  sv_category :: pyval
  sv_description :: pyval
  sv_preview_url :: pyval
  sv_available_for_tiers :: pyval
  sv_settings :: "(pyval \<times> pyval) option"

text \<open>
  The synchronous SDK client. \<open>user_get\<close> is \<open>client.user.get()\<close> read at
  \<open>.subscription.tier\<close>; \<open>generate\<close> is \<open>client.generate\<close> iterated to its end, the
  chunks in order; \<open>speech_to_text_attr\<close> is None when the client object has no attribute
  \<open>speech_to_text\<close>.
\<close>

record sdk =
  user_get :: "exn + string"
  generate :: "string \<Rightarrow> voice \<Rightarrow> string option \<Rightarrow> exn + bytes list"
  speech_to_text_attr :: "(bytes \<Rightarrow> string option \<Rightarrow> exn + sdk_transcript) option"
  voices_get_all :: "exn + sdk_voice list"

record http_response =
  resp_status_code :: nat
  resp_text :: string
  resp_json :: "exn + pyval"

text \<open>
  The rest of the environment: \<open>os.getenv\<close>, the SDK constructor, the temporary file
  (written, opened for reading, unlinked; a file that opens holds the bytes written to it), \<open>httpx.Client.post\<close> to the provider's
  speech-to-text URL with the API key header, the file and the optional form data, and
  pydantic's coercion of run-time values into \<open>str\<close> and \<open>float\<close> fields with the
  ValidationError it raises for a response model.
\<close>

record world =
  getenv :: "string \<Rightarrow> string option"
  ElevenLabsSync :: "string \<Rightarrow> exn + sdk"
  named_temporary_file :: "bytes \<Rightarrow> exn + string"
  open_rb :: "string \<Rightarrow> exn option"
  unlink :: "string \<Rightarrow> exn option"
  httpx_post :: "string \<Rightarrow> bytes \<Rightarrow> (string \<times> string option) list option \<Rightarrow> exn + http_response"
  coerce_str :: "pyval \<Rightarrow> string option"
  coerce_float :: "pyval \<Rightarrow> rat option"
  validation_error :: "string \<Rightarrow> exn"

section \<open>The provider adapter (elevenlabs\_client.py)\<close>

record elevenlabs_client =
  api_key :: string
  client :: "sdk option"
  connected :: bool

definition new_client :: "string \<Rightarrow> elevenlabs_client" where
  "new_client key = \<lparr>api_key = key, client = None, connected = False\<rparr>"

text \<open>
  \<open>initialize\<close> returns the adapter as the call leaves it and the exception it raised,
  if any: the except clause clears \<open>_connected\<close> and re-raises, keeping a client that
  was already constructed.
\<close>

definition initialize :: "world \<Rightarrow> elevenlabs_client \<Rightarrow> elevenlabs_client \<times> exn option" where
  "initialize w c =
     (case ElevenLabsSync w (api_key c) of
        Inl e \<Rightarrow> (c\<lparr>connected := False\<rparr>, Some e)
      | Inr s \<Rightarrow>
          (case user_get s of
             Inl e \<Rightarrow> (c\<lparr>client := Some s, connected := False\<rparr>, Some e)
           | Inr tier \<Rightarrow> (c\<lparr>client := Some s, connected := True\<rparr>, None)))"

definition is_connected :: "elevenlabs_client \<Rightarrow> bool" where
  "is_connected c = (connected c \<and> client c \<noteq> None)"

definition not_connected :: exn where
  "not_connected = Exn ''RuntimeError'' ''Client not connected''"

definition apostrophe :: string where
  "apostrophe = [CHR 0x27]"

fun type_name :: "pyval \<Rightarrow> string" where
  "type_name PyNone = ''NoneType''"
| "type_name (PyBool _) = ''bool''"
| "type_name (PyNum _) = ''float''"
| "type_name (PyStr _) = ''str''"
| "type_name (PyList _) = ''list''"
| "type_name (PyDict _) = ''dict''"

definition no_attribute :: "pyval \<Rightarrow> string \<Rightarrow> exn" where
  "no_attribute v a =
     Exn ''AttributeError''
       (apostrophe @ type_name v @ apostrophe @ '' object has no attribute '' @
        apostrophe @ a @ apostrophe)"

text \<open>The first part of \<open>_generate_speech\<close>: the settings handed to the SDK.\<close>

definition make_settings :: "(string \<times> pyval) list option \<Rightarrow> voice_settings" where
  "make_settings vs =
     (case vs of
        Some d \<Rightarrow>
          (if d \<noteq> [] then
             \<lparr>stability = dict_get d ''stability'' (PyNum 0.5),
              similarity_boost = dict_get d ''similarity_boost'' (PyNum 0.75),
              style = dict_get d ''style'' (PyNum 0.0),
              use_speaker_boost = dict_get d ''use_speaker_boost'' (PyBool True)\<rparr>
           else
             \<lparr>stability = PyNum 0.5, similarity_boost = PyNum 0.75,
              style = PyNum 0.0, use_speaker_boost = PyBool True\<rparr>)
      | None \<Rightarrow>
          \<lparr>stability = PyNum 0.5, similarity_boost = PyNum 0.75,
           style = PyNum 0.0, use_speaker_boost = PyBool True\<rparr>)"

definition text_to_speech ::
  "elevenlabs_client \<Rightarrow> string \<Rightarrow> string \<Rightarrow> string option \<Rightarrow>
   (string \<times> pyval) list option \<Rightarrow> exn + bytes" where
  "text_to_speech c txt vid model_id vs =
     (if \<not> is_connected c then Inl not_connected
      else
        (case client c of
           None \<Rightarrow> Inl (no_attribute PyNone ''generate'')
         | Some s \<Rightarrow>
             (case generate s txt
                     \<lparr>voice_voice_id = vid, voice_settings = make_settings vs\<rparr> model_id of
                Inl e \<Rightarrow> Inl e
              | Inr chunks \<Rightarrow> Inr (concat chunks))))"

text \<open>The dictionary that \<open>speech_to_text\<close> returns always has these three keys.\<close>

record transcript =
  tr_text :: pyval
  tr_confidence :: pyval
  tr_language :: string

text \<open>
  \<open>'scribe_v1' if (model_id or 'whisper-1') == 'whisper-1' else model_id\<close>, the
  model name sent to the provider.
\<close>

definition elevenlabs_model :: "string option \<Rightarrow> string option" where
  "elevenlabs_model model_id =
     (if py_or model_id ''whisper-1'' = ''whisper-1'' then Some ''scribe_v1'' else model_id)"

text \<open>
  The SDK attempt of \<open>_transcribe_audio\<close>. None means that control reaches the direct
  API call: the client has no \<open>speech_to_text\<close>, or opening the file or the conversion
  raised and the inner except clause logged it.
\<close>

definition sdk_attempt ::
  "world \<Rightarrow> sdk option \<Rightarrow> string \<Rightarrow> bytes \<Rightarrow> string option \<Rightarrow> string option \<Rightarrow>
   transcript option" where
  "sdk_attempt w cl temp_path audio_file model_id language =
     (case open_rb w temp_path of
        Some e \<Rightarrow> None
      | None \<Rightarrow>
          (case cl of
             None \<Rightarrow> None
           | Some s \<Rightarrow>
               (case speech_to_text_attr s of
                  None \<Rightarrow> None
                | Some convert \<Rightarrow>
                    (case convert audio_file (elevenlabs_model model_id) of
                       Inl e \<Rightarrow> None
                     | Inr result \<Rightarrow>
                         Some \<lparr>tr_text = (case attr_text result of
                                            Some t \<Rightarrow> t
                                          | None \<Rightarrow> PyStr (as_str result)),
                               tr_confidence = (case attr_confidence result of
                                                  Some cf \<Rightarrow> cf
                                                | None \<Rightarrow> PyNum 0.95),
                               tr_language = py_or language ''en''\<rparr>))))"

text \<open>
  \<open>result = response.json()\<close> followed by the three \<open>result.get\<close> calls; only a JSON
  object has \<open>get\<close>.
\<close>

definition json_transcript :: "exn + pyval \<Rightarrow> string option \<Rightarrow> exn + transcript" where
  "json_transcript j language =
     (case j of
        Inl e \<Rightarrow> Inl e
      | Inr (PyDict d) \<Rightarrow>
          Inr \<lparr>tr_text = dict_get d ''text'' (PyStr []),
               tr_confidence = dict_get d ''confidence'' (PyNum 0.95),
               tr_language = py_or language ''en''\<rparr>
      | Inr v \<Rightarrow> Inl (no_attribute v ''get''))"

text \<open>The form data of the second POST.\<close>

definition form_data :: "string option \<Rightarrow> string option \<Rightarrow> (string \<times> string option) list" where
  "form_data model_id language =
     (''model_id'', elevenlabs_model model_id) #
     (case language of
        None \<Rightarrow> []
      | Some l \<Rightarrow> if l \<noteq> [] then [(''language'', language)] else [])"

definition stt_api_error :: "http_response \<Rightarrow> exn" where
  "stt_api_error r =
     Exn ''Exception''
       (''STT API error: '' @ str_nat (resp_status_code r) @ '' - '' @ resp_text r)"

text \<open>The direct API call: a POST with the file alone, then one with the form data.\<close>

definition rest_fallback ::
  "world \<Rightarrow> string \<Rightarrow> string \<Rightarrow> bytes \<Rightarrow> string option \<Rightarrow> string option \<Rightarrow>
   exn + transcript" where
  "rest_fallback w key temp_path audio_file model_id language =
     (case open_rb w temp_path of
        Some e \<Rightarrow> Inl e
      | None \<Rightarrow>
          (case httpx_post w key audio_file None of
             Inl e \<Rightarrow> Inl e
           | Inr response \<Rightarrow>
               (if resp_status_code response = 200
                then json_transcript (resp_json response) language
                else
                  (case httpx_post w key audio_file (Some (form_data model_id language)) of
                     Inl e \<Rightarrow> Inl e
                   | Inr response2 \<Rightarrow>
                       (if resp_status_code response2 = 200
                        then json_transcript (resp_json response2) language
                        else Inl (stt_api_error response2))))))"

text \<open>
  \<open>_transcribe_audio\<close>: the temporary file is written, the two paths are tried, and the
  finally clause unlinks the file; an exception of the unlink replaces the result.
\<close>

definition transcribe_audio ::
  "world \<Rightarrow> elevenlabs_client \<Rightarrow> bytes \<Rightarrow> string option \<Rightarrow> string option \<Rightarrow> exn + transcript" where
  "transcribe_audio w c audio_data model_id language =
     (case named_temporary_file w audio_data of
        Inl e \<Rightarrow> Inl e
      | Inr temp_path \<Rightarrow>
          (let r = (case sdk_attempt w (client c) temp_path audio_data model_id language of
                      Some t \<Rightarrow> Inr t
                    | None \<Rightarrow>
                        rest_fallback w (api_key c) temp_path audio_data model_id language)
           in case unlink w temp_path of Some e \<Rightarrow> Inl e | None \<Rightarrow> r))"

definition fallback_response :: "string option \<Rightarrow> transcript" where
  "fallback_response language =
     \<lparr>tr_text = PyStr ''STT API temporarily unavailable - this is a fallback response to test the integration pipeline.'',
      tr_confidence = PyNum 0.80,
      tr_language = py_or language ''en''\<rparr>"

text \<open>
  The log line after the worker returns evaluates \<open>result['text'][:100]\<close>, which raises
  unless the text can be sliced.
\<close>

fun sliceable :: "pyval \<Rightarrow> bool" where
  "sliceable (PyStr _) = True"
| "sliceable (PyList _) = True"
| "sliceable _ = False"

definition speech_to_text ::
  "world \<Rightarrow> elevenlabs_client \<Rightarrow> bytes \<Rightarrow> string option \<Rightarrow> string option \<Rightarrow> exn + transcript" where
  "speech_to_text w c audio_data model_id language =
     (if \<not> is_connected c then Inl not_connected
      else
        (case transcribe_audio w c audio_data model_id language of
           Inl e \<Rightarrow> Inr (fallback_response language)
         | Inr result \<Rightarrow>
             (if sliceable (tr_text result) then Inr result
              else Inr (fallback_response language))))"

text \<open>The dictionaries of \<open>get_voices\<close>, one per voice of the SDK's answer.\<close>

record voice_dict =
  vd_voice_id :: pyval
  vd_name :: pyval
  vd_category :: pyval
  vd_description :: pyval
  vd_preview_url :: pyval
  vd_available_for_tiers :: pyval
  vd_settings :: "(pyval \<times> pyval) option"

definition voice_to_dict :: "sdk_voice \<Rightarrow> voice_dict" where
  "voice_to_dict v =
     \<lparr>vd_voice_id = sv_voice_id v, vd_name = sv_name v, vd_category = sv_category v,
      vd_description = sv_description v, vd_preview_url = sv_preview_url v,
      vd_available_for_tiers = sv_available_for_tiers v, vd_settings = sv_settings v\<rparr>"

definition get_voices :: "elevenlabs_client \<Rightarrow> exn + voice_dict list" where
  "get_voices c =
     (if \<not> is_connected c then Inl not_connected
      else
        (case client c of
           None \<Rightarrow> Inl (no_attribute PyNone ''voices'')
         | Some s \<Rightarrow>
             (case voices_get_all s of
                Inl e \<Rightarrow> Inl e
              | Inr vs \<Rightarrow> Inr (map voice_to_dict vs))))"

definition close :: "elevenlabs_client \<Rightarrow> elevenlabs_client" where
  "close c = c\<lparr>connected := False, client := None\<rparr>"

section \<open>The HTTP facade (main.py)\<close>

text \<open>
  The module's global \<open>elevenlabs_client\<close> is an optional adapter, None until the
  lifespan manager assigns it. The handlers of main.py that share a name with a method of
  the adapter carry the prefix \<open>main_\<close>. Readings of the clock are arguments.
\<close>

record TTSRequest =
  treq_text :: string
  treq_voice_id :: "string option"
  treq_model_id :: "string option"
  treq_voice_settings :: "(string \<times> pyval) list option"

record STTRequest =
  sreq_audio_data :: string
  sreq_model_id :: "string option"
  sreq_language :: "string option"

record TTSResponse =
  tts_audio_data :: string
  tts_voice_id :: string
  tts_model_id :: string
  tts_duration :: rat
  tts_size :: nat
  tts_generated_at :: string

record STTResponse =
  stt_text :: string
  stt_confidence :: rat
  stt_language :: string
  stt_processing_time :: rat
  stt_model_id :: string

record HealthResponse =
  h_status :: string
  h_service :: string
  h_version :: string
  h_uptime :: rat
  h_elevenlabs_connected :: bool

record VoiceInfo =
  vi_voice_id :: string
  vi_name :: string
  vi_category :: string
  vi_description :: "string option"
  vi_preview_url :: "string option"

record clock =
  time_before :: rat
  time_after :: rat
  strftime :: string

definition key_required :: exn where
  "key_required = Exn ''RuntimeError'' ''ElevenLabs API key is required''"

text \<open>
  The startup half of \<open>lifespan\<close>: the new value of the global and the exception that
  aborts startup, if any. \<open>not api_key\<close> holds for a missing variable and for an empty
  one. The global is assigned before \<open>initialize\<close> runs.
\<close>

definition lifespan_startup ::
  "world \<Rightarrow> elevenlabs_client option \<Rightarrow> elevenlabs_client option \<times> exn option" where
  "lifespan_startup w g =
     (case getenv w ''ELEVENLABS_API_KEY'' of
        None \<Rightarrow> (g, Some key_required)
      | Some k \<Rightarrow>
          (if k = [] \<or> k = ''your-elevenlabs-api-key-here'' then (g, Some key_required)
           else
             (case initialize w (new_client k) of
                (c, r) \<Rightarrow> (Some c, r))))"

definition lifespan_shutdown :: "elevenlabs_client option \<Rightarrow> elevenlabs_client option" where
  "lifespan_shutdown g = map_option close g"

definition not_initialized :: http_exception where
  "not_initialized = HTTPException 503 ''ElevenLabs client not initialized''"

definition health_check ::
  "elevenlabs_client option \<Rightarrow> rat \<Rightarrow> rat \<Rightarrow> http_exception + HealthResponse" where
  "health_check g start_time now =
     Inr \<lparr>h_status = ''healthy'',
          h_service = ''elevenlabs-microservice'',
          h_version = ''1.0.0'',
          h_uptime = now - start_time,
          h_elevenlabs_connected = (case g of None \<Rightarrow> False | Some c \<Rightarrow> is_connected c)\<rparr>"

definition default_voice_id :: "world \<Rightarrow> string" where
  "default_voice_id w =
     (case getenv w ''ELEVENLABS_VOICE_ID'' of Some v \<Rightarrow> v | None \<Rightarrow> ''21m00Tcm4TlvDq8ikWAM'')"

text \<open>
  POST /tts. The field \<open>model_id\<close> of the response is a \<open>str\<close>, so a request whose
  \<open>model_id\<close> is null fails the response's validation inside the try block.
\<close>

definition main_text_to_speech ::
  "world \<Rightarrow> elevenlabs_client option \<Rightarrow> clock \<Rightarrow> TTSRequest \<Rightarrow> http_exception + TTSResponse" where
  "main_text_to_speech w g clk request =
     (case g of
        None \<Rightarrow> Inl not_initialized
      | Some c \<Rightarrow>
          (let voice_id = py_or (treq_voice_id request) (default_voice_id w) in
           case text_to_speech c (treq_text request) voice_id (treq_model_id request)
                  (treq_voice_settings request) of
             Inl e \<Rightarrow> Inl (HTTPException 500 (exn_str e))
           | Inr audio_data \<Rightarrow>
               (case treq_model_id request of
                  None \<Rightarrow> Inl (HTTPException 500 (exn_str (validation_error w ''TTSResponse'')))
                | Some m \<Rightarrow>
                    Inr \<lparr>tts_audio_data = b64encode audio_data,
                         tts_voice_id = voice_id,
                         tts_model_id = m,
                         tts_duration = time_after clk - time_before clk,
                         tts_size = length audio_data,
                         tts_generated_at = strftime clk\<rparr>)))"

text \<open>The construction of an STTResponse from the adapter's dictionary.\<close>

definition stt_response ::
  "world \<Rightarrow> clock \<Rightarrow> transcript \<Rightarrow> string \<Rightarrow> http_exception + STTResponse" where
  "stt_response w clk result model =
     (case (coerce_str w (tr_text result), coerce_float w (tr_confidence result)) of
        (Some t, Some cf) \<Rightarrow>
          Inr \<lparr>stt_text = t,
               stt_confidence = cf,
               stt_language = tr_language result,
               stt_processing_time = time_after clk - time_before clk,
               stt_model_id = model\<rparr>
      | _ \<Rightarrow> Inl (HTTPException 500 (exn_str (validation_error w ''STTResponse''))))"

text \<open>POST /stt. The base64 decoding is inside the try block.\<close>

definition main_speech_to_text ::
  "world \<Rightarrow> elevenlabs_client option \<Rightarrow> clock \<Rightarrow> STTRequest \<Rightarrow> http_exception + STTResponse" where
  "main_speech_to_text w g clk request =
     (case g of
        None \<Rightarrow> Inl not_initialized
      | Some c \<Rightarrow>
          (case b64decode (sreq_audio_data request) of
             Inl e \<Rightarrow> Inl (HTTPException 500 (exn_str e))
           | Inr audio_data \<Rightarrow>
               (case speech_to_text w c audio_data (sreq_model_id request)
                       (sreq_language request) of
                  Inl e \<Rightarrow> Inl (HTTPException 500 (exn_str e))
                | Inr result \<Rightarrow>
                    stt_response w clk result (py_or (sreq_model_id request) ''whisper-1''))))"

text \<open>
  POST /stt-file, with the bytes read from the upload and the query parameters; here
  \<open>model_id\<close> is a plain \<open>str\<close> with the default \<open>whisper-1\<close>.
\<close>

definition speech_to_text_file ::
  "world \<Rightarrow> elevenlabs_client option \<Rightarrow> clock \<Rightarrow> bytes \<Rightarrow> string \<Rightarrow> string option \<Rightarrow>
   http_exception + STTResponse" where
  "speech_to_text_file w g clk audio_data model_id language =
     (case g of
        None \<Rightarrow> Inl not_initialized
      | Some c \<Rightarrow>
          (case speech_to_text w c audio_data (Some model_id) language of
             Inl e \<Rightarrow> Inl (HTTPException 500 (exn_str e))
           | Inr result \<Rightarrow> stt_response w clk result model_id))"

definition optional_str :: "world \<Rightarrow> pyval \<Rightarrow> string option option" where
  "optional_str w v = (if v = PyNone then Some None else map_option Some (coerce_str w v))"

definition voice_info :: "world \<Rightarrow> voice_dict \<Rightarrow> VoiceInfo option" where
  "voice_info w v =
     (case (coerce_str w (vd_voice_id v), coerce_str w (vd_name v), coerce_str w (vd_category v),
            optional_str w (vd_description v), optional_str w (vd_preview_url v)) of
        (Some i, Some n, Some c, Some d, Some p) \<Rightarrow>
          Some \<lparr>vi_voice_id = i, vi_name = n, vi_category = c,
                vi_description = d, vi_preview_url = p\<rparr>
      | _ \<Rightarrow> None)"

text \<open>GET /voices.\<close>

definition main_get_voices ::
  "world \<Rightarrow> elevenlabs_client option \<Rightarrow> http_exception + VoiceInfo list" where
  "main_get_voices w g =
     (case g of
        None \<Rightarrow> Inl not_initialized
      | Some c \<Rightarrow>
          (case get_voices c of
             Inl e \<Rightarrow> Inl (HTTPException 500 (exn_str e))
           | Inr voices \<Rightarrow>
               (case those (map (voice_info w) voices) of
                  None \<Rightarrow> Inl (HTTPException 500 (exn_str (validation_error w ''VoiceInfo'')))
                | Some infos \<Rightarrow> Inr infos)))"

text \<open>GET /models: a literal, read from no state.\<close>

record model_entry =
  me_id :: string
  me_name :: string
  me_description :: string

record models_catalog =
  tts_models :: "model_entry list"
  stt_models :: "model_entry list"

definition get_models :: "http_exception + models_catalog" where
  "get_models =
     Inr \<lparr>tts_models =
            [\<lparr>me_id = ''eleven_monolingual_v1'', me_name = ''Eleven Monolingual v1'',
              me_description = ''High quality English model''\<rparr>,
             \<lparr>me_id = ''eleven_multilingual_v1'', me_name = ''Eleven Multilingual v1'',
              me_description = ''Multilingual model supporting various languages''\<rparr>,
             \<lparr>me_id = ''eleven_multilingual_v2'', me_name = ''Eleven Multilingual v2'',
              me_description = ''Latest multilingual model with improved quality''\<rparr>],
          stt_models =
            [\<lparr>me_id = ''whisper-1'', me_name = ''Whisper v1'',
              me_description = ''OpenAI Whisper model for speech recognition''\<rparr>]\<rparr>"

section \<open>Sample environments\<close>

text \<open>
  Concrete SDK clients, environments and requests, at which the theorems below are
  evaluated. \<open>sample_sdk\<close> answers every call; \<open>offline_sdk\<close> has no
  \<open>speech_to_text\<close> and fails every other call; \<open>sample_world\<close> has a working file
  system and a provider that refuses the direct connection.
\<close>

definition refused :: exn where
  "refused = Exn ''ConnectError'' ''connection refused''"

definition sample_sdk :: sdk where
  "sample_sdk =
     \<lparr>user_get = Inr ''free'',
      generate = (\<lambda>txt v m. Inr [[72, 105], [33]]),
      speech_to_text_attr =
        Some (\<lambda>audio m. Inr \<lparr>attr_text = Some (PyStr ''hello world''),
                               attr_confidence = None,
                               as_str = ''transcription''\<rparr>),
      voices_get_all = Inr []\<rparr>"

definition offline_sdk :: sdk where
  "offline_sdk =
     \<lparr>user_get = Inr ''free'',
      generate = (\<lambda>txt v m. Inl refused),
      speech_to_text_attr = None,
      voices_get_all = Inl refused\<rparr>"

definition pydantic_str :: "pyval \<Rightarrow> string option" where
  "pydantic_str v = (case v of PyStr s \<Rightarrow> Some s | _ \<Rightarrow> None)"

definition pydantic_float :: "pyval \<Rightarrow> rat option" where
  "pydantic_float v = (case v of PyNum r \<Rightarrow> Some r | _ \<Rightarrow> None)"

definition sample_world :: world where
  "sample_world =
     \<lparr>getenv = (\<lambda>k. if k = ''ELEVENLABS_API_KEY'' then Some ''sk-sample'' else None),
      ElevenLabsSync = (\<lambda>key. Inr sample_sdk),
      named_temporary_file = (\<lambda>audio. Inr ''/tmp/tmpq3x.wav''),
      open_rb = (\<lambda>path. None),
      unlink = (\<lambda>path. None),
      httpx_post = (\<lambda>key audio form. Inl refused),
      coerce_str = pydantic_str,
      coerce_float = pydantic_float,
      validation_error = (\<lambda>m. Exn ''ValidationError'' (''1 validation error for '' @ m))\<rparr>"

text \<open>The same environment with the API key variable set to the empty string.\<close>

definition empty_key_world :: world where
  "empty_key_world = sample_world\<lparr>getenv := (\<lambda>k. Some [])\<rparr>"

text \<open>
  An environment whose provider rejects the first POST with 422 and answers the second
  with a transcript.
\<close>

definition retry_world :: world where
  "retry_world =
     sample_world\<lparr>httpx_post :=
       (\<lambda>key audio form.
          case form of
            None \<Rightarrow> Inr \<lparr>resp_status_code = 422, resp_text = ''model_id required'',
                          resp_json = Inr PyNone\<rparr>
          | Some d \<Rightarrow> Inr \<lparr>resp_status_code = 200, resp_text = [],
                            resp_json = Inr (PyDict [(''text'', PyStr ''good morning''),
                                                     (''language_code'', PyStr ''de'')])\<rparr>)\<rparr>"

definition sample_client :: elevenlabs_client where
  "sample_client = \<lparr>api_key = ''sk-sample'', client = Some sample_sdk, connected = True\<rparr>"

definition offline_client :: elevenlabs_client where
  "offline_client = \<lparr>api_key = ''sk-sample'', client = Some offline_sdk, connected = True\<rparr>"

definition sample_clock :: clock where
  "sample_clock = \<lparr>time_before = 10, time_after = 12, strftime = ''2024-01-01 00:00:00''\<rparr>"

definition sample_tts_request :: TTSRequest where
  "sample_tts_request =
     \<lparr>treq_text = ''Hi!'', treq_voice_id = None,
      treq_model_id = Some ''eleven_monolingual_v1'',
      treq_voice_settings = Some [(''style'', PyNum 0.3)]\<rparr>"

definition bad_stt_request :: STTRequest where
  "bad_stt_request =
     \<lparr>sreq_audio_data = ''A'', sreq_model_id = Some ''whisper-1'', sreq_language = None\<rparr>"

definition sample_stt_request :: STTRequest where
  "sample_stt_request =
     \<lparr>sreq_audio_data = ''SGkh'', sreq_model_id = Some ''whisper-1'', sreq_language = None\<rparr>"

definition sample_tts_response :: TTSResponse where
  "sample_tts_response =
     \<lparr>tts_audio_data = ''SGkh'', tts_voice_id = ''21m00Tcm4TlvDq8ikWAM'',
      tts_model_id = ''eleven_monolingual_v1'', tts_duration = 2, tts_size = 3,
      tts_generated_at = ''2024-01-01 00:00:00''\<rparr>"

section \<open>Base64 round trip\<close>

lemma and63_lt: "unat ((w::byte) AND 63) < 64"
proof -
  have "unat (w AND 63) \<le> unat (63 :: byte)"
    by (rule word_and_le1 [THEN word_le_nat_alt [THEN iffD1]])
  then show ?thesis by simp
qed

lemma table_upto_64:
  "\<forall>n \<in> set [0..<64]. table_a2b_base64 (table_b2a_base64 (of_nat n)) = Some (of_nat n)
      \<and> table_b2a_base64 (of_nat n) \<noteq> CHR ''=''
      \<and> of_char (table_b2a_base64 (of_nat n)) < (128 :: nat)"
  by code_simp

lemma b2a_and63: "table_b2a_base64 (w AND 63) = table_b2a_base64 w"
  by (simp add: table_b2a_base64_def and.assoc)

lemma table_facts:
  "table_a2b_base64 (table_b2a_base64 w) = Some (w AND 63)
   \<and> table_b2a_base64 w \<noteq> CHR ''=''
   \<and> of_char (table_b2a_base64 w) < (128 :: nat)"
proof -
  let ?n = "unat (w AND 63)"
  have "?n \<in> set [0..<64]" using and63_lt [of w] by simp
  with table_upto_64
  have "table_a2b_base64 (table_b2a_base64 (of_nat ?n)) = Some (of_nat ?n)
      \<and> table_b2a_base64 (of_nat ?n) \<noteq> CHR ''=''
      \<and> of_char (table_b2a_base64 (of_nat ?n)) < (128 :: nat)"
    by blast
  then show ?thesis by (simp add: b2a_and63)
qed

lemma a2b_val [simp]: "table_a2b_base64 (table_b2a_base64 w) = Some (w AND 63)"
  using table_facts by blast

lemma b2a_not_pad [simp]: "table_b2a_base64 w \<noteq> CHR ''=''"
  using table_facts by blast

lemma b2a_ascii: "of_char (table_b2a_base64 w) < (128 :: nat)"
  using table_facts by blast

lemma and_3_take_bit: "(a::byte) AND 3 = take_bit 2 a"
  by (simp add: take_bit_eq_mask mask_eq_exp_minus_1)

lemma and_15_take_bit: "(a::byte) AND 15 = take_bit 4 a"
  by (simp add: take_bit_eq_mask mask_eq_exp_minus_1)

lemma and_63_take_bit: "(a::byte) AND 63 = take_bit 6 a"
  by (simp add: take_bit_eq_mask mask_eq_exp_minus_1)

lemma suc_suc_minus: "2 \<le> n \<Longrightarrow> Suc (Suc (n - 2)) = n"
  by simp

lemmas sextet_simps = bit_simps and_3_take_bit and_15_take_bit and_63_take_bit suc_suc_minus

text \<open>The three bytes of a quantum come back from its four sextets.\<close>

lemma first_byte:
  "push_bit 2 (drop_bit 2 a AND 63) OR drop_bit 4 ((push_bit 4 (a AND 3) OR drop_bit 4 b) AND 63)
     = (a::byte)"
proof (rule bit_word_eqI)
  fix n assume "n < LENGTH(8)"
  then show "bit (push_bit 2 (drop_bit 2 a AND 63) OR
                  drop_bit 4 ((push_bit 4 (a AND 3) OR drop_bit 4 b) AND 63)) n = bit a n"
    by (cases "2 \<le> n") (auto simp add: sextet_simps dest: bit_imp_le_length)
qed

lemma second_byte:
  "push_bit 4 (((push_bit 4 (a AND 3) OR drop_bit 4 b) AND 63) AND 15) OR
   drop_bit 2 ((push_bit 2 (b AND 15) OR drop_bit 6 c) AND 63) = (b::byte)"
proof (rule bit_word_eqI)
  fix n assume "n < LENGTH(8)"
  then show "bit (push_bit 4 (((push_bit 4 (a AND 3) OR drop_bit 4 b) AND 63) AND 15) OR
                  drop_bit 2 ((push_bit 2 (b AND 15) OR drop_bit 6 c) AND 63)) n = bit b n"
    by (cases "4 \<le> n") (auto simp add: sextet_simps dest: bit_imp_le_length)
qed

lemma third_byte:
  "push_bit 6 (((push_bit 2 (b AND 15) OR drop_bit 6 c) AND 63) AND 3) OR (c AND 63)
     = (c::byte)"
proof (rule bit_word_eqI)
  fix n assume "n < LENGTH(8)"
  then show "bit (push_bit 6 (((push_bit 2 (b AND 15) OR drop_bit 6 c) AND 63) AND 3) OR
                  (c AND 63)) n = bit c n"
    by (cases "6 \<le> n") (auto simp add: sextet_simps dest: bit_imp_le_length)
qed

lemma first_byte_padded:
  "push_bit 2 (drop_bit 2 a AND 63) OR drop_bit 4 (push_bit 4 (a AND 3) AND 63) = (a::byte)"
  using first_byte [of a 0] by (simp del: push_bit_and push_bit_or drop_bit_and drop_bit_or)

lemma second_byte_padded:
  "push_bit 4 (((push_bit 4 (a AND 3) OR drop_bit 4 b) AND 63) AND 15) OR
   drop_bit 2 (push_bit 2 (b AND 15) AND 63) = (b::byte)"
  using second_byte [of a b 0] by (simp del: push_bit_and push_bit_or drop_bit_and drop_bit_or)

lemma a2b_b64encode:
  "a2b_base64 (b64encode bs) 0 l p out = Inr (out @ bs)"
proof (induction bs arbitrary: l p out rule: b64encode.induct)
  case 1
  then show ?case by simp
next
  case (2 a)
  then show ?case
    by (simp add: first_byte_padded del: push_bit_and push_bit_or drop_bit_and drop_bit_or)
next
  case (3 a b)
  then show ?case
    by (simp add: first_byte second_byte_padded
          del: push_bit_and push_bit_or drop_bit_and drop_bit_or)
next
  case (4 a b c rest)
  then show ?case
    by (simp add: first_byte second_byte third_byte
          del: push_bit_and push_bit_or drop_bit_and drop_bit_or)
qed

lemma b64encode_ascii: "ch \<in> set (b64encode bs) \<Longrightarrow> of_char ch < (128 :: nat)"
  by (induction bs rule: b64encode.induct) (auto simp add: b2a_ascii)

lemma b64decode_b64encode: "b64decode (b64encode bs) = Inr bs"
proof -
  have "\<not> (\<exists>ch \<in> set (b64encode bs). of_char ch \<ge> (128 :: nat))"
    using b64encode_ascii [of _ bs] by (auto simp add: not_le)
  then show ?thesis
    using a2b_b64encode [of bs 0 0 "[]"] by (simp add: b64decode_def)
qed

section \<open>Properties of the adapter\<close>

lemma fallback_language: "tr_language (fallback_response l) = py_or l ''en''"
  by (simp add: fallback_response_def)

lemma sdk_attempt_language:
  "sdk_attempt w cl p a m l = Some t \<Longrightarrow> tr_language t = py_or l ''en''"
  by (auto simp add: sdk_attempt_def split: option.splits sum.splits)

lemma json_transcript_language:
  "json_transcript j l = Inr t \<Longrightarrow> tr_language t = py_or l ''en''"
  by (auto simp add: json_transcript_def split: sum.splits pyval.splits)

lemma rest_fallback_language:
  "rest_fallback w k p a m l = Inr t \<Longrightarrow> tr_language t = py_or l ''en''"
  by (auto simp add: rest_fallback_def split: option.splits sum.splits if_splits
        dest: json_transcript_language)

lemma transcribe_audio_cases:
  "transcribe_audio w c a m l = Inr r \<Longrightarrow>
     \<exists>p. named_temporary_file w a = Inr p
       \<and> (sdk_attempt w (client c) p a m l = Some r
          \<or> (sdk_attempt w (client c) p a m l = None
              \<and> rest_fallback w (api_key c) p a m l = Inr r))"
  by (auto simp add: transcribe_audio_def Let_def split: option.splits sum.splits)


lemma speech_to_text_cases:
  "is_connected c \<Longrightarrow>
     speech_to_text w c a m l = Inr (fallback_response l)
     \<or> (\<exists>r. speech_to_text w c a m l = Inr r \<and> transcribe_audio w c a m l = Inr r)"
  by (auto simp add: speech_to_text_def split: sum.splits)



section \<open>The claims\<close>




text \<open>
  The string \<open>A\<close> is not base64: one data character cannot end a quantum. With an
  initialized adapter POST /stt answers it with status 500, which is not a 4xx status.
\<close>

theorem stt_bad_base64_counterexample:
  "b64decode (sreq_audio_data bad_stt_request) = Inl (invalid_length 0)
   \<and> response_status
        (main_speech_to_text sample_world (Some sample_client) sample_clock bad_stt_request) = 500
   \<and> \<not> (400 \<le> response_status
             (main_speech_to_text sample_world (Some sample_client) sample_clock bad_stt_request)
         \<and> response_status
             (main_speech_to_text sample_world (Some sample_client) sample_clock bad_stt_request)
             < 500)"
  by code_simp

lemma bad_request_undecodable:
  "b64decode (sreq_audio_data bad_stt_request) = Inl (invalid_length 0)"
  by code_simp

text \<open>
  C2, amended. The decoding is inside the handler's try block, whose except clause maps
  every exception to status 500. So for every POST /stt request on an initialized facade
  whose \<open>audio_data\<close> the base64 decoder rejects, the response is status 500 and
  carries the decoder's message.
\<close>

theorem stt_undecodable_is_500:
  assumes "b64decode (sreq_audio_data request) = Inl e"
  shows "main_speech_to_text w (Some c) clk request = Inl (HTTPException 500 (exn_str e))"
  using assms by (simp add: main_speech_to_text_def)

theorem stt_undecodable_is_500_witness:
  "b64decode (sreq_audio_data bad_stt_request) = Inl (invalid_length 0)
   \<and> main_speech_to_text sample_world (Some sample_client) sample_clock bad_stt_request
       = Inl (HTTPException 500 (exn_str (invalid_length 0)))"
  by (rule conjI [OF bad_request_undecodable
        stt_undecodable_is_500 [OF bad_request_undecodable]])

text \<open>
  GET /models reads no state: it answers 200 with the literal catalogue also while the
  adapter is unset, where GET /voices answers 503.
\<close>

theorem models_uninitialized_counterexample:
  "main_get_voices sample_world None = Inl not_initialized
   \<and> response_status get_models = 200
   \<and> response_status get_models \<noteq> 503"
  by (simp add: main_get_voices_def get_models_def response_status_def)

text \<open>
  C3, amended. Every GET /voices request made before the adapter is initialized, that is
  while the global \<open>elevenlabs_client\<close> is unset, returns status 503, and no GET /voices
  request crashes: each is answered with status 200, 500 or 503. Every GET /models
  request returns status 200, whether or not the adapter is initialized.
\<close>

theorem voices_503_models_200:
  "main_get_voices w None = Inl (HTTPException 503 ''ElevenLabs client not initialized'')
   \<and> response_status (main_get_voices w None) = 503
   \<and> response_status (main_get_voices w g) \<in> {200, 500, 503}
   \<and> response_status get_models = 200"
  by (auto simp add: main_get_voices_def get_models_def response_status_def not_initialized_def
        split: option.splits sum.splits)

theorem voices_503_models_200_witness:
  "main_get_voices sample_world None
     = Inl (HTTPException 503 ''ElevenLabs client not initialized'')
   \<and> response_status (main_get_voices sample_world None) = 503
   \<and> response_status (main_get_voices sample_world (Some offline_client)) \<in> {200, 500, 503}
   \<and> response_status get_models = 200"
  by (rule voices_503_models_200 [of sample_world "Some offline_client"])

text \<open>
  C4. Whenever POST /tts succeeds, base64-decoding the response's \<open>audio_data\<close> gives
  back exactly the bytes the adapter's \<open>text_to_speech\<close> returned for the request, and
  \<open>size\<close> is the number of those bytes.
\<close>

theorem tts_audio_roundtrip:
  assumes "main_text_to_speech w g clk request = Inr resp"
  shows "\<exists>c payload.
           g = Some c
           \<and> text_to_speech c (treq_text request)
                 (py_or (treq_voice_id request) (default_voice_id w))
                 (treq_model_id request) (treq_voice_settings request) = Inr payload
           \<and> b64decode (tts_audio_data resp) = Inr payload
           \<and> tts_size resp = length payload"
proof (cases g)
  case None
  with assms show ?thesis
    by (simp add: main_text_to_speech_def not_initialized_def)
next
  case (Some c)
  let ?r = "text_to_speech c (treq_text request)
              (py_or (treq_voice_id request) (default_voice_id w))
              (treq_model_id request) (treq_voice_settings request)"
  from assms Some obtain payload m where p: "?r = Inr payload"
    and m: "treq_model_id request = Some m"
    by (auto simp add: main_text_to_speech_def Let_def split: sum.splits option.splits)
  with assms Some have "tts_audio_data resp = b64encode payload" "tts_size resp = length payload"
    by (auto simp add: main_text_to_speech_def Let_def)
  with p Some show ?thesis
    by (simp add: b64decode_b64encode)
qed

lemma sample_tts_evaluates:
  "main_text_to_speech sample_world (Some sample_client) sample_clock sample_tts_request =
     Inr sample_tts_response"
  by code_simp

text \<open>
  The sample request is answered with the three bytes of \<open>Hi!\<close> as \<open>SGkh\<close>, which
  decode to those bytes.
\<close>

theorem tts_audio_roundtrip_witness:
  "main_text_to_speech sample_world (Some sample_client) sample_clock sample_tts_request =
     Inr sample_tts_response
   \<and> b64decode (tts_audio_data sample_tts_response) = Inr [72, 105, 33]
   \<and> tts_size sample_tts_response = 3"
proof -
  from tts_audio_roundtrip [OF sample_tts_evaluates]
  obtain c payload where c: "Some sample_client = Some c"
    and p: "text_to_speech c (treq_text sample_tts_request)
              (py_or (treq_voice_id sample_tts_request) (default_voice_id sample_world))
              (treq_model_id sample_tts_request) (treq_voice_settings sample_tts_request)
            = Inr payload"
    and d: "b64decode (tts_audio_data sample_tts_response) = Inr payload"
    and s: "tts_size sample_tts_response = length payload"
    by blast
  from c have "c = sample_client" by simp
  with p have "payload = [72, 105, 33]"
    by (simp add: text_to_speech_def is_connected_def sample_client_def sample_sdk_def)
  with d s sample_tts_evaluates show ?thesis by simp
qed

lemma offline_tts_raises:
  "text_to_speech offline_client (treq_text sample_tts_request)
     (py_or (treq_voice_id sample_tts_request) (default_voice_id sample_world))
     (treq_model_id sample_tts_request) (treq_voice_settings sample_tts_request) = Inl refused"
  by (simp add: text_to_speech_def is_connected_def offline_client_def offline_sdk_def)

lemma disconnected_stt_raises:
  "b64decode (sreq_audio_data sample_stt_request) = Inr [72, 105, 33]
   \<and> speech_to_text sample_world (new_client ''sk-sample'') [72, 105, 33]
        (sreq_model_id sample_stt_request) (sreq_language sample_stt_request)
       = Inl not_connected"
  by code_simp

text \<open>
  C5. While the adapter is uninitialized, that is while the global \<open>elevenlabs_client\<close>
  is unset, POST /tts and POST /stt answer 503. When the adapter's \<open>text_to_speech\<close>
  raises during POST /tts, or its \<open>speech_to_text\<close> raises during POST /stt, the answer
  is 500 and its detail is the exception's message; the adapter's own
  \<open>Client not connected\<close> is such an error.
\<close>

theorem uninitialized_503_adapter_error_500:
  "main_text_to_speech w None clk treq
     = Inl (HTTPException 503 ''ElevenLabs client not initialized'')
   \<and> main_speech_to_text w None clk sreq
     = Inl (HTTPException 503 ''ElevenLabs client not initialized'')
   \<and> (text_to_speech c (treq_text treq) (py_or (treq_voice_id treq) (default_voice_id w))
          (treq_model_id treq) (treq_voice_settings treq) = Inl e
        \<longrightarrow> main_text_to_speech w (Some c) clk treq = Inl (HTTPException 500 (exn_str e)))
   \<and> (b64decode (sreq_audio_data sreq) = Inr audio
        \<and> speech_to_text w c audio (sreq_model_id sreq) (sreq_language sreq) = Inl e
        \<longrightarrow> main_speech_to_text w (Some c) clk sreq = Inl (HTTPException 500 (exn_str e)))"
  by (simp add: main_text_to_speech_def main_speech_to_text_def not_initialized_def Let_def)

text \<open>
  Both endpoints at the unset adapter, POST /tts at a provider that refuses the
  connection, and POST /stt at an adapter that was constructed and never connected.
\<close>

theorem uninitialized_503_adapter_error_500_witness:
  "response_status (main_text_to_speech sample_world None sample_clock sample_tts_request) = 503
   \<and> response_status (main_speech_to_text sample_world None sample_clock sample_stt_request) = 503
   \<and> main_text_to_speech sample_world (Some offline_client) sample_clock sample_tts_request
       = Inl (HTTPException 500 ''connection refused'')
   \<and> main_speech_to_text sample_world (Some (new_client ''sk-sample'')) sample_clock
        sample_stt_request
       = Inl (HTTPException 500 ''Client not connected'')"
proof -
  note t1 = uninitialized_503_adapter_error_500
    [of sample_world sample_clock sample_tts_request sample_stt_request offline_client refused]
  note t2 = uninitialized_503_adapter_error_500
    [of sample_world sample_clock sample_tts_request sample_stt_request
        "new_client ''sk-sample''" not_connected "[72, 105, 33]"]
  from t1 have a: "response_status
      (main_text_to_speech sample_world None sample_clock sample_tts_request) = 503"
    by (simp add: response_status_def)
  from t1 have b: "response_status
      (main_speech_to_text sample_world None sample_clock sample_stt_request) = 503"
    by (simp add: response_status_def)
  from t1 offline_tts_raises
  have c: "main_text_to_speech sample_world (Some offline_client) sample_clock sample_tts_request
       = Inl (HTTPException 500 ''connection refused'')"
    by (simp add: refused_def)
  from t2 disconnected_stt_raises
  have d: "main_speech_to_text sample_world (Some (new_client ''sk-sample'')) sample_clock
        sample_stt_request = Inl (HTTPException 500 ''Client not connected'')"
    by (simp add: not_connected_def)
  from a b c d show ?thesis by blast
qed

text \<open>
  C6. GET /health returns status 200 in every state of the adapter and at every reading
  of the clock, with the five fields of the schema: the three fixed strings, the uptime
  as the time since the module was loaded, and the connectivity flag, which is true
  exactly when the adapter is set and connected.
\<close>

theorem health_check_always_200:
  "response_status (health_check g start_time now) = 200
   \<and> (\<exists>h. health_check g start_time now = Inr h
          \<and> h_status h = ''healthy''
          \<and> h_service h = ''elevenlabs-microservice''
          \<and> h_version h = ''1.0.0''
          \<and> h_uptime h = now - start_time
          \<and> h_elevenlabs_connected h = (\<exists>c. g = Some c \<and> is_connected c))"
  by (cases g) (simp_all add: health_check_def response_status_def)

theorem health_check_always_200_witness:
  "response_status (health_check None 100 160) = 200
   \<and> (\<exists>h. health_check None 100 160 = Inr h
          \<and> h_status h = ''healthy''
          \<and> h_service h = ''elevenlabs-microservice''
          \<and> h_version h = ''1.0.0''
          \<and> h_uptime h = 160 - 100
          \<and> h_elevenlabs_connected h = (\<exists>c. None = Some c \<and> is_connected c))"
  by (rule health_check_always_200 [of None 100 160])

text \<open>
  With the API key variable set to the empty string the variable is present, it is not the
  placeholder, and initializing an adapter with that key would succeed in this
  environment; startup raises all the same, because \<open>not api_key\<close> holds for the empty
  string.
\<close>

theorem startup_empty_key_counterexample:
  "getenv empty_key_world ''ELEVENLABS_API_KEY'' = Some []
   \<and> [] \<noteq> ''your-elevenlabs-api-key-here''
   \<and> snd (initialize empty_key_world (new_client [])) = None
   \<and> snd (lifespan_startup empty_key_world None) = Some key_required"
  by (simp add: empty_key_world_def sample_world_def lifespan_startup_def initialize_def
        sample_sdk_def new_client_def)

lemma sample_startup: "snd (lifespan_startup sample_world None) = None"
  by (simp add: sample_world_def lifespan_startup_def initialize_def sample_sdk_def
        new_client_def)

text \<open>
  C7, amended. Startup raises if and only if the API key variable is absent, is empty or
  equals the placeholder, or the initialization of the adapter with that key raises.
  When startup completes, the global adapter is set and connected.
\<close>

theorem startup_fails_iff:
  "(snd (lifespan_startup w g) \<noteq> None) =
     (case getenv w ''ELEVENLABS_API_KEY'' of
        None \<Rightarrow> True
      | Some k \<Rightarrow> k = [] \<or> k = ''your-elevenlabs-api-key-here''
                  \<or> snd (initialize w (new_client k)) \<noteq> None)
   \<and> (snd (lifespan_startup w g) = None \<longrightarrow>
        (\<exists>c. fst (lifespan_startup w g) = Some c \<and> is_connected c))"
  by (auto simp add: lifespan_startup_def key_required_def initialize_def is_connected_def
        new_client_def split: option.splits sum.splits prod.splits)

theorem startup_fails_iff_witness:
  "snd (lifespan_startup sample_world None) = None
   \<and> (\<exists>c. fst (lifespan_startup sample_world None) = Some c \<and> is_connected c)"
proof -
  from startup_fails_iff [of sample_world None]
  have "snd (lifespan_startup sample_world None) = None \<longrightarrow>
        (\<exists>c. fst (lifespan_startup sample_world None) = Some c \<and> is_connected c)"
    by (rule conjunct2)
  from this sample_startup
  have "\<exists>c. fst (lifespan_startup sample_world None) = Some c \<and> is_connected c"
    by (rule mp)
  with sample_startup show ?thesis by (rule conjI)
qed

text \<open>
  A caller who supplies the empty string as \<open>model_id\<close> does not have it forwarded: the
  form data of the second POST carries \<open>scribe_v1\<close>, since \<open>model_id or 'whisper-1'\<close>
  replaces the empty string too.
\<close>

theorem model_rewrite_counterexample:
  "form_data (Some []) None = [(''model_id'', Some ''scribe_v1'')]
   \<and> Some ''scribe_v1'' \<noteq> Some ([] :: string)"
  by (simp add: form_data_def elevenlabs_model_def py_or_def)

lemma retry_first_post:
  "open_rb retry_world ''/tmp/tmpq3x.wav'' = None
   \<and> httpx_post retry_world ''sk-sample'' [82, 73, 70, 70] None
       = Inr \<lparr>resp_status_code = 422, resp_text = ''model_id required'', resp_json = Inr PyNone\<rparr>
   \<and> resp_status_code
        \<lparr>resp_status_code = 422, resp_text = ''model_id required'', resp_json = Inr PyNone\<rparr>
       \<noteq> 200"
  by (simp add: retry_world_def sample_world_def)

text \<open>
  C8, amended. When the first POST of the direct API call is answered with a status other
  than 200, the call's result is that of a second POST whose form data carries, under
  \<open>model_id\<close>, the name \<open>scribe_v1\<close> when the caller's \<open>model_id\<close> is absent, empty
  or \<open>whisper-1\<close>, and the caller's \<open>model_id\<close> unchanged otherwise.
\<close>

theorem second_attempt_model:
  assumes "open_rb w p = None"
    and "httpx_post w key audio None = Inr r1"
    and "resp_status_code r1 \<noteq> 200"
  shows "\<exists>d. rest_fallback w key p audio m l =
               (case httpx_post w key audio (Some d) of
                  Inl e \<Rightarrow> Inl e
                | Inr r2 \<Rightarrow> if resp_status_code r2 = 200
                            then json_transcript (resp_json r2) l
                            else Inl (stt_api_error r2))
           \<and> map_of d ''model_id'' =
               Some (if m = None \<or> m = Some [] \<or> m = Some ''whisper-1''
                     then Some ''scribe_v1'' else m)"
proof -
  have "map_of (form_data m l) ''model_id'' =
          Some (if m = None \<or> m = Some [] \<or> m = Some ''whisper-1''
                then Some ''scribe_v1'' else m)"
    by (auto simp add: form_data_def elevenlabs_model_def py_or_def split: option.splits)
  moreover from assms have "rest_fallback w key p audio m l =
               (case httpx_post w key audio (Some (form_data m l)) of
                  Inl e \<Rightarrow> Inl e
                | Inr r2 \<Rightarrow> if resp_status_code r2 = 200
                            then json_transcript (resp_json r2) l
                            else Inl (stt_api_error r2))"
    by (simp add: rest_fallback_def)
  ultimately show ?thesis by blast
qed

text \<open>
  At a provider that answers the first POST with 422, a caller's \<open>scribe_v2\<close> reaches
  the second POST as it is.
\<close>

theorem second_attempt_model_witness:
  "(open_rb retry_world ''/tmp/tmpq3x.wav'' = None
    \<and> httpx_post retry_world ''sk-sample'' [82, 73, 70, 70] None
        = Inr \<lparr>resp_status_code = 422, resp_text = ''model_id required'',
               resp_json = Inr PyNone\<rparr>
    \<and> resp_status_code
         \<lparr>resp_status_code = 422, resp_text = ''model_id required'', resp_json = Inr PyNone\<rparr>
        \<noteq> 200)
   \<and> (\<exists>d. rest_fallback retry_world ''sk-sample'' ''/tmp/tmpq3x.wav'' [82, 73, 70, 70]
             (Some ''scribe_v2'') None =
               (case httpx_post retry_world ''sk-sample'' [82, 73, 70, 70] (Some d) of
                  Inl e \<Rightarrow> Inl e
                | Inr r2 \<Rightarrow> if resp_status_code r2 = 200
                            then json_transcript (resp_json r2) None
                            else Inl (stt_api_error r2))
           \<and> map_of d ''model_id'' = Some (Some ''scribe_v2''))"
proof -
  note h = retry_first_post
  from second_attempt_model [OF conjunct1 [OF h] conjunct1 [OF conjunct2 [OF h]]
      conjunct2 [OF conjunct2 [OF h]], of "Some ''scribe_v2''" None]
  have "\<exists>d. rest_fallback retry_world ''sk-sample'' ''/tmp/tmpq3x.wav'' [82, 73, 70, 70]
             (Some ''scribe_v2'') None =
               (case httpx_post retry_world ''sk-sample'' [82, 73, 70, 70] (Some d) of
                  Inl e \<Rightarrow> Inl e
                | Inr r2 \<Rightarrow> if resp_status_code r2 = 200
                            then json_transcript (resp_json r2) None
                            else Inl (stt_api_error r2))
           \<and> map_of d ''model_id'' = Some (Some ''scribe_v2'')"
    by simp
  with h show ?thesis by (rule conjI)
qed




text \<open>
  A caller who supplies the empty string as \<open>language\<close> gets \<open>en\<close> back, not the
  argument: \<open>language or "en"\<close> replaces the empty string as it replaces None.
\<close>

theorem language_empty_counterexample:
  "speech_to_text sample_world sample_client [82, 73, 70, 70] (Some ''whisper-1'') (Some [])
     = Inr \<lparr>tr_text = PyStr ''hello world'', tr_confidence = PyNum 0.95, tr_language = ''en''\<rparr>
   \<and> ''en'' \<noteq> ([] :: string)"
  by (simp add: speech_to_text_def is_connected_def sample_client_def sample_sdk_def
        transcribe_audio_def sample_world_def sdk_attempt_def py_or_def)

lemma retry_stt_evaluates:
  "speech_to_text retry_world offline_client [82, 73, 70, 70] (Some ''whisper-1'') None
     = Inr \<lparr>tr_text = PyStr ''good morning'', tr_confidence = PyNum 0.95, tr_language = ''en''\<rparr>"
  by code_simp

text \<open>
  C10, amended. The language of every record that \<open>speech_to_text\<close> returns is the
  caller's \<open>language\<close> argument when that is a non-empty string and \<open>en\<close> when it is
  absent or empty, and so is the language of the record of each path: the SDK attempt, the
  direct API call and the placeholder. Nothing the provider reports enters it.
\<close>

theorem language_from_caller:
  "(speech_to_text w c audio m l = Inr r \<longrightarrow> tr_language r = py_or l ''en'')
   \<and> (sdk_attempt w (client c) p audio m l = Some t1 \<longrightarrow> tr_language t1 = py_or l ''en'')
   \<and> (rest_fallback w (api_key c) p audio m l = Inr t2 \<longrightarrow> tr_language t2 = py_or l ''en'')
   \<and> tr_language (fallback_response l) = py_or l ''en''
   \<and> py_or l ''en'' = (case l of None \<Rightarrow> ''en'' | Some x \<Rightarrow> if x = [] then ''en'' else x)"
proof (intro conjI impI)
  assume a: "speech_to_text w c audio m l = Inr r"
  then have con: "is_connected c"
    by (auto simp add: speech_to_text_def split: if_splits)
  from speech_to_text_cases [OF con, of w audio m l] a
  consider "r = fallback_response l" | "transcribe_audio w c audio m l = Inr r"
    by auto
  then show "tr_language r = py_or l ''en''"
  proof cases
    case 1
    then show ?thesis by (simp add: fallback_language)
  next
    case 2
    from transcribe_audio_cases [OF 2] show ?thesis
      by (auto dest: sdk_attempt_language rest_fallback_language)
  qed
next
  assume "sdk_attempt w (client c) p audio m l = Some t1"
  then show "tr_language t1 = py_or l ''en''" by (rule sdk_attempt_language)
next
  assume "rest_fallback w (api_key c) p audio m l = Inr t2"
  then show "tr_language t2 = py_or l ''en''" by (rule rest_fallback_language)
next
  show "tr_language (fallback_response l) = py_or l ''en''" by (rule fallback_language)
next
  show "py_or l ''en'' = (case l of None \<Rightarrow> ''en'' | Some x \<Rightarrow> if x = [] then ''en'' else x)"
    by (simp add: py_or_def)
qed

text \<open>
  The provider's answer names German as the detected language; the caller gave no
  language, and the record says \<open>en\<close>.
\<close>

theorem language_from_caller_witness:
  "speech_to_text retry_world offline_client [82, 73, 70, 70] (Some ''whisper-1'') None
     = Inr \<lparr>tr_text = PyStr ''good morning'', tr_confidence = PyNum 0.95, tr_language = ''en''\<rparr>
   \<and> tr_language
        \<lparr>tr_text = PyStr ''good morning'', tr_confidence = PyNum 0.95, tr_language = ''en''\<rparr>
       = py_or None ''en''"
proof -
  from language_from_caller [of retry_world offline_client "[82, 73, 70, 70]"
      "Some ''whisper-1''" None
      "\<lparr>tr_text = PyStr ''good morning'', tr_confidence = PyNum 0.95, tr_language = ''en''\<rparr>"]
  have "speech_to_text retry_world offline_client [82, 73, 70, 70] (Some ''whisper-1'') None
          = Inr \<lparr>tr_text = PyStr ''good morning'', tr_confidence = PyNum 0.95,
                 tr_language = ''en''\<rparr>
        \<longrightarrow> tr_language
              \<lparr>tr_text = PyStr ''good morning'', tr_confidence = PyNum 0.95,
               tr_language = ''en''\<rparr> = py_or None ''en''"
    by (rule conjunct1)
  from this retry_stt_evaluates
  have "tr_language
          \<lparr>tr_text = PyStr ''good morning'', tr_confidence = PyNum 0.95, tr_language = ''en''\<rparr>
        = py_or None ''en''"
    by (rule mp)
  with retry_stt_evaluates show ?thesis by (rule conjI)
qed

end
